theory Spec2Isabelle
  imports Complex_Main "HOL-Library.Word" "HOL-Library.Multiset"
begin

section \<open>Go values used by the collectors\<close>

subsection \<open>Errors\<close>

text \<open>
  An error value is a native failure (of go-ole, of the MI session or of the pdh package),
  a wrapper made by \<^verbatim>\<open>fmt.Errorf("...: %w", err)\<close> (the text before the verb and the
  wrapped error) or the value of \<^verbatim>\<open>errors.Join\<close>. A nil error is \<open>None\<close> of
  \<open>error option\<close>.
\<close>

datatype error = Native string | Errorf string error | joinError "error list"

text \<open>
  \<^verbatim>\<open>errors.Join(errs...)\<close>: nil when no error is given, otherwise one error that
  holds all of them in order. The collectors append only non-nil errors.
\<close>

definition errors_Join :: "error list \<Rightarrow> error option" where
  "errors_Join errs = (if errs = [] then None else Some (joinError errs))"

text \<open>
  \<^verbatim>\<open>errors.Is(err, target)\<close>: \<open>target\<close> is found in the tree that \<open>err\<close> unwraps to
  (one wrapped error for \<open>Errorf\<close>, every joined error for \<open>joinError\<close>).
\<close>

fun errors_Is :: "error \<Rightarrow> error \<Rightarrow> bool" where
  "errors_Is (Native m) target = (Native m = target)"
| "errors_Is (Errorf m e) target = (Errorf m e = target \<or> errors_Is e target)"
| "errors_Is (joinError es) target =
     (joinError es = target \<or> list_ex (\<lambda>e. errors_Is e target) es)"

subsection \<open>float64\<close>

text \<open>
  An IEEE 754 binary64 value: a sign (\<open>True\<close> is negative) with a magnitude that is a
  representable rational, an infinity, or NaN. Conversions and division round to nearest,
  ties to even, with 53 bits of precision, exponents down to \<open>-1074\<close> (subnormals) and
  overflow to infinity from \<open>2 ^ 1024\<close> on.
\<close>

datatype float64 = Finite bool rat | Infinity bool | NaN

function bit_length :: "int \<Rightarrow> int" where
  "bit_length n = (if n \<le> 0 then 0 else 1 + bit_length (n div 2))"
  by pat_completeness auto
termination
  by (relation "measure nat") auto

declare bit_length.simps [simp del]

text \<open>\<open>floor_log2 q\<close> is the exponent \<open>e\<close> with \<open>2 ^ e \<le> q < 2 ^ (e + 1)\<close>, for \<open>0 < q\<close>.\<close>

definition floor_log2 :: "rat \<Rightarrow> int" where
  "floor_log2 q =
     (if 1 \<le> q then bit_length \<lfloor>q\<rfloor> - 1
      else - bit_length (\<lceil>1 / q\<rceil> - 1))"

definition pow2 :: "int \<Rightarrow> rat" where
  "pow2 e = (if 0 \<le> e then 2 ^ nat e else 1 / 2 ^ nat (- e))"

definition round_half_even :: "rat \<Rightarrow> int" where
  "round_half_even x =
     (let f = \<lfloor>x\<rfloor>; d = x - of_int f
      in if d < 1 / 2 then f
         else if 1 / 2 < d then f + 1
         else if even f then f else f + 1)"

text \<open>Rounding a magnitude \<open>0 \<le> q\<close> to binary64, with the sign \<open>s\<close>.\<close>

definition round_float64 :: "bool \<Rightarrow> rat \<Rightarrow> float64" where
  "round_float64 s q =
     (if q = 0 then Finite s 0
      else let e = max (floor_log2 q - 52) (- 1074);
               r = of_int (round_half_even (q / pow2 e)) * pow2 e
           in if 2 ^ 1024 \<le> r then Infinity s else Finite s r)"

text \<open>The conversion \<^verbatim>\<open>float64(x)\<close> of a \<^verbatim>\<open>uint32\<close>.\<close>

definition float64_of_uint32 :: "32 word \<Rightarrow> float64" where
  "float64_of_uint32 v = round_float64 False (of_int (uint v))"

text \<open>The operator \<^verbatim>\<open>/\<close> on \<^verbatim>\<open>float64\<close>: no panic, a zero divisor gives an infinity or NaN.\<close>

fun float64_div :: "float64 \<Rightarrow> float64 \<Rightarrow> float64" where
  "float64_div NaN _ = NaN"
| "float64_div _ NaN = NaN"
| "float64_div (Infinity s) (Infinity t) = NaN"
| "float64_div (Infinity s) (Finite t b) = Infinity (s \<noteq> t)"
| "float64_div (Finite s a) (Infinity t) = Finite (s \<noteq> t) 0"
| "float64_div (Finite s a) (Finite t b) =
     (if b = 0 then (if a = 0 then NaN else Infinity (s \<noteq> t))
      else round_float64 (s \<noteq> t) (a / b))"

fun is_finite :: "float64 \<Rightarrow> bool" where
  "is_finite (Finite s m) = True"
| "is_finite (Infinity s) = False"
| "is_finite NaN = False"

text \<open>The number a finite value stands for (\<open>None\<close> for an infinity and for NaN).\<close>

fun valof :: "float64 \<Rightarrow> rat option" where
  "valof (Finite s m) = Some (if s then - m else m)"
| "valof (Infinity s) = None"
| "valof NaN = None"

text \<open>A value between 0 and 1: a finite value, not negative and at most 1.\<close>

definition is_fraction :: "float64 \<Rightarrow> bool" where
  "is_fraction v = (case v of Finite s m \<Rightarrow> \<not> s \<and> 0 \<le> m \<and> m \<le> 1 | Infinity s \<Rightarrow> False | NaN \<Rightarrow> False)"

subsection \<open>Strings\<close>

text \<open>\<^verbatim>\<open>strings.ToLower\<close> on ASCII text: the letters A to Z move to a to z.\<close>

definition ToLower_char :: "char \<Rightarrow> char" where
  "ToLower_char c =
     (let n = (of_char c :: nat) in if 65 \<le> n \<and> n \<le> 90 then char_of (n + 32) else c)"

definition strings_ToLower :: "string \<Rightarrow> string" where
  "strings_ToLower s = map ToLower_char s"

subsection \<open>Compiled regular expressions\<close>

text \<open>
  A compiled \<^verbatim>\<open>*regexp.Regexp\<close> is used only through \<^verbatim>\<open>MatchString\<close>; it is modelled
  by the set of strings it matches, as a predicate.
\<close>

type_synonym Regexp = "string \<Rightarrow> bool"

definition MatchString :: "Regexp \<Rightarrow> string \<Rightarrow> bool" where
  "MatchString re s = re s"

text \<open>
  Two compiled patterns, as \<^verbatim>\<open>NewWithFlags\<close> compiles a flag value \<^verbatim>\<open>v\<close> into
  \<^verbatim>\<open>^(?:v)$\<close>: the one of the empty value (the default of the exclude flag), which
  matches the empty string only, and the one of a value without metacharacters, which
  matches that text only.
\<close>

definition RegExpEmpty :: Regexp where
  "RegExpEmpty s = (s = [])"

definition RegExpLiteral :: "string \<Rightarrow> Regexp" where
  "RegExpLiteral v s = (s = v)"

section \<open>Metric samples\<close>

text \<open>
  The descriptors are the fields of the three \<^verbatim>\<open>Collector\<close> structs that \<^verbatim>\<open>Build\<close>
  fills; a sample is what \<^verbatim>\<open>prometheus.MustNewConstMetric\<close> is given. The channel
  \<^verbatim>\<open>ch\<close> is the list of the samples sent so far, oldest first.
\<close>

datatype Desc =
    c_lastResult | c_missedRuns | c_state
  | c_numberOfExceptionsThrown | c_numberOfFilters | c_numberOfFinally | c_throwToCatchDepth
  | c_numberOfMethodsJitted | c_timeInJit | c_standardJitFailures | c_totalNumberOfILBytesJitted
  | c_memActive | c_memBallooned | c_memLimit | c_memMapped | c_memOverhead
  | c_memReservation | c_memShared | c_memSharedSaved | c_memShares | c_memSwapped
  | c_memTargetSize | c_memUsed
  | c_cpuLimitMHz | c_cpuReservationMHz | c_cpuShares | c_cpuStolenTotal | c_cpuTimeTotal
  | c_cpuEffectiveVMSpeedMHz | c_hostProcessorSpeedMHz

datatype ValueType = CounterValue | GaugeValue

record Metric =
  desc :: Desc
  valueType :: ValueType
  val :: float64
  labelValues :: "string list"

definition MustNewConstMetric :: "Desc \<Rightarrow> ValueType \<Rightarrow> float64 \<Rightarrow> string list \<Rightarrow> Metric" where
  "MustNewConstMetric d t v ls = \<lparr>desc = d, valueType = t, val = v, labelValues = ls\<rparr>"

text \<open>How a call ends: it returns its error (\<open>None\<close> is nil), or it panics.\<close>

datatype completion = Returned "error option" | Panicked

text \<open>The instances a list of samples is about: the first label value of each sample.\<close>

definition instance_emitted :: "string \<Rightarrow> Metric list \<Rightarrow> bool" where
  "instance_emitted p ms = list_ex (\<lambda>m. take 1 (labelValues m) = [p]) ms"

section \<open>The scheduled_task collector\<close>

text \<open>
  \<^verbatim>\<open>TaskState\<close> and \<^verbatim>\<open>TaskResult\<close> are Go's \<^verbatim>\<open>uint\<close>, 64 bits wide on the 64-bit
  Windows targets of the exporter. The collector only compares them with constants.
\<close>

type_synonym uint = "64 word"
type_synonym TaskState = uint
type_synonym TaskResult = uint

definition TASK_STATE_UNKNOWN :: TaskState where "TASK_STATE_UNKNOWN = 0"
definition TASK_STATE_DISABLED :: TaskState where "TASK_STATE_DISABLED = 1"
definition TASK_STATE_QUEUED :: TaskState where "TASK_STATE_QUEUED = 2"
definition TASK_STATE_READY :: TaskState where "TASK_STATE_READY = 3"
definition TASK_STATE_RUNNING :: TaskState where "TASK_STATE_RUNNING = 4"

definition SCHED_S_SUCCESS :: TaskResult where "SCHED_S_SUCCESS = 0x0"
definition SCHED_S_TASK_HAS_NOT_RUN :: TaskResult where "SCHED_S_TASK_HAS_NOT_RUN = 0x00041303"

text \<open>
  \<^verbatim>\<open>ScheduledTask\<close> and the two row types of the CLR collectors have a field
  \<^verbatim>\<open>Name\<close> each; the records share it through the one-field record \<open>Named\<close>.
\<close>

record Named =
  Name :: string

record ScheduledTask = Named +
  Path :: string
  Enabled :: bool
  State :: TaskState
  MissedRunsCount :: float64
  LastTaskResult :: TaskResult

record Config =
  TaskExclude :: Regexp
  TaskInclude :: Regexp

definition TaskState_String :: "TaskState \<Rightarrow> string" where
  "TaskState_String t =
     (if t = TASK_STATE_UNKNOWN then ''Unknown''
      else if t = TASK_STATE_DISABLED then ''Disabled''
      else if t = TASK_STATE_QUEUED then ''Queued''
      else if t = TASK_STATE_READY then ''Ready''
      else if t = TASK_STATE_RUNNING then ''Running''
      else '''')"

definition TASK_STATES :: "string list" where
  "TASK_STATES = [''disabled'', ''queued'', ''ready'', ''running'', ''unknown'']"

subsection \<open>The task folders of the scheduler\<close>

text \<open>
  A folder object of the Task Scheduler, as the traversal sees it: its path, the outcome
  of its method \<^verbatim>\<open>GetTasks\<close> (an error, or the tasks of the folder, each as the outcome
  of \<^verbatim>\<open>parseTask\<close> on it) and the outcome of its method \<^verbatim>\<open>GetFolders\<close> (an error, or
  its sub-folders). The lists hold the items that the enumeration of \<^verbatim>\<open>oleutil.ForEach\<close>
  yields, in its order.
\<close>

datatype folder =
  Folder (folderPath: string)
         (GetTasks: "error + (error + ScheduledTask) list")
         (GetFolders: "error + folder list")

text \<open>
  The state of a traversal: the accumulator \<^verbatim>\<open>*scheduledTasks\<close> and the calls of
  \<^verbatim>\<open>oleutil.CallMethod\<close> made so far (the path of the folder and the method), oldest
  first.
\<close>

record walk =
  scheduledTasks :: "ScheduledTask list"
  calls :: "(string \<times> string) list"

definition CallMethod :: "folder \<Rightarrow> string \<Rightarrow> walk \<Rightarrow> walk" where
  "CallMethod f m w = w\<lparr>calls := calls w @ [(folderPath f, m)]\<rparr>"

text \<open>\<^verbatim>\<open>oleutil.ForEach\<close>: the callback on each item in order, up to its first error.\<close>

fun ForEach :: "'a list \<Rightarrow> ('a \<Rightarrow> 's \<Rightarrow> error option \<times> 's) \<Rightarrow> 's \<Rightarrow> error option \<times> 's" where
  "ForEach [] f w = (None, w)"
| "ForEach (v # vs) f w =
     (case f v w of
        (Some ferr, w') \<Rightarrow> (Some ferr, w')
      | (None, w') \<Rightarrow> ForEach vs f w')"

lemma ForEach_cong [fundef_cong]:
  "xs = ys \<Longrightarrow> (\<And>x s. x \<in> set ys \<Longrightarrow> f x s = g x s) \<Longrightarrow> w = w' \<Longrightarrow>
   ForEach xs f w = ForEach ys g w'"
proof (induction ys arbitrary: xs w w')
  case Nil
  then show ?case by simp
next
  case (Cons y ys)
  have "ForEach ys f u = ForEach ys g u" for u
    by (rule Cons.IH) (simp_all add: Cons.prems(2))
  then show ?case
    using Cons.prems by (simp split: prod.splits option.splits)
qed

definition fetchTasksInFolder :: "folder \<Rightarrow> walk \<Rightarrow> error option \<times> walk" where
  "fetchTasksInFolder folder w =
     (let w1 = CallMethod folder ''GetTasks'' w
      in case GetTasks folder of
           Inl err \<Rightarrow> (Some err, w1)
         | Inr tasks \<Rightarrow>
             ForEach tasks
               (\<lambda>v s. case v of
                        Inl err \<Rightarrow> (Some err, s)
                      | Inr parsedTask \<Rightarrow>
                          (None, s\<lparr>scheduledTasks := scheduledTasks s @ [parsedTask]\<rparr>))
               w1)"

lemma size_subFolder:
  "GetFolders folder = Inr subFolders \<Longrightarrow> subFolder \<in> set subFolders \<Longrightarrow>
   size subFolder < size folder"
  by (cases folder) (auto simp: less_Suc_eq_le dest!: size_list_estimation' [where f = size and y = "size subFolder"])

function fetchTasksRecursively :: "folder \<Rightarrow> walk \<Rightarrow> error option \<times> walk" where
  "fetchTasksRecursively folder w =
     (case fetchTasksInFolder folder w of
        (Some err, w1) \<Rightarrow> (Some err, w1)
      | (None, w1) \<Rightarrow>
          (let w2 = CallMethod folder ''GetFolders'' w1
           in case GetFolders folder of
                Inl err \<Rightarrow> (Some err, w2)
              | Inr subFolders \<Rightarrow>
                  ForEach subFolders (\<lambda>subFolder s. fetchTasksRecursively subFolder s) w2))"
  by pat_completeness auto

termination
  by (relation "measure (\<lambda>(folder, w). size folder)") (auto dest: size_subFolder)

declare fetchTasksRecursively.simps [simp del]

text \<open>
  What the specification says of a folder tree. \<open>all_calls_succeed\<close>: the tree is a
  folder with a list of tasks and a list of sub-folders, that is, no call on it or below
  it fails. \<open>leaf_tasks\<close>: the tasks of the folder itself, then those of its sub-folders,
  depth first. \<open>folder_paths\<close>: the folder, then the folders below it, depth first.
  \<open>tasks_in\<close>: the tasks of the tree, each as often as it occurs in it.
\<close>

fun all_calls_succeed :: "folder \<Rightarrow> bool" where
  "all_calls_succeed (Folder p gt gf) =
     ((case gt of Inl err \<Rightarrow> False | Inr tasks \<Rightarrow> list_all (\<lambda>v. \<not> isl v) tasks) \<and>
      (case gf of Inl err \<Rightarrow> False | Inr subFolders \<Rightarrow> list_all all_calls_succeed subFolders))"

fun leaf_tasks :: "folder \<Rightarrow> ScheduledTask list" where
  "leaf_tasks (Folder p gt gf) =
     (case gt of Inl err \<Rightarrow> [] | Inr tasks \<Rightarrow> map projr (filter (\<lambda>v. \<not> isl v) tasks)) @
     (case gf of Inl err \<Rightarrow> [] | Inr subFolders \<Rightarrow> concat (map leaf_tasks subFolders))"

fun folder_paths :: "folder \<Rightarrow> string list" where
  "folder_paths (Folder p gt gf) =
     p # (case gf of Inl err \<Rightarrow> [] | Inr subFolders \<Rightarrow> concat (map folder_paths subFolders))"

fun tasks_in :: "folder \<Rightarrow> ScheduledTask multiset" where
  "tasks_in (Folder p gt gf) =
     (case gt of Inl err \<Rightarrow> {#} | Inr tasks \<Rightarrow> mset (map projr (filter (\<lambda>v. \<not> isl v) tasks))) +
     (case gf of Inl err \<Rightarrow> {#} | Inr subFolders \<Rightarrow> sum_list (map tasks_in subFolders))"

subsection \<open>Collecting\<close>

text \<open>The inner loop of \<^verbatim>\<open>collect\<close>: one state sample for each name of \<^verbatim>\<open>TASK_STATES\<close>.\<close>

fun collect_states :: "ScheduledTask \<Rightarrow> string list \<Rightarrow> Metric list \<Rightarrow> Metric list" where
  "collect_states task [] ch = ch"
| "collect_states task (state # states) ch =
     (let stateValue =
            (if strings_ToLower (TaskState_String (State task)) = state
             then Finite False 1 else Finite False 0)
      in collect_states task states
           (ch @ [MustNewConstMetric c_state GaugeValue stateValue [Path task, state]]))"

text \<open>The body of the outer loop, for one task; each \<^verbatim>\<open>continue\<close> leaves the channel as it is.\<close>

definition collect_task :: "Config \<Rightarrow> ScheduledTask \<Rightarrow> Metric list \<Rightarrow> Metric list" where
  "collect_task config task ch =
     (if MatchString (TaskExclude config) (Path task) \<or>
         \<not> MatchString (TaskInclude config) (Path task)
      then ch
      else let ch1 = collect_states task TASK_STATES ch
           in if LastTaskResult task = SCHED_S_TASK_HAS_NOT_RUN then ch1
              else let lastResult =
                         (if LastTaskResult task = SCHED_S_SUCCESS
                          then Finite False 1 else Finite False 0)
                   in ch1 @
                      [MustNewConstMetric c_lastResult GaugeValue lastResult [Path task],
                       MustNewConstMetric c_missedRuns GaugeValue (MissedRunsCount task)
                         [Path task]])"

fun collect_tasks :: "Config \<Rightarrow> ScheduledTask list \<Rightarrow> Metric list \<Rightarrow> Metric list" where
  "collect_tasks config [] ch = ch"
| "collect_tasks config (task # tasks) ch =
     collect_tasks config tasks (collect_task config task ch)"

text \<open>
  \<^verbatim>\<open>collect\<close>, given what \<^verbatim>\<open>getScheduledTasks()\<close> returned (the tasks and the error);
  the result is the channel afterwards and the error returned.
\<close>

definition collect ::
  "Config \<Rightarrow> ScheduledTask list \<times> error option \<Rightarrow> Metric list \<Rightarrow> Metric list \<times> error option" where
  "collect config got ch =
     (case got of
        (tasks, Some err) \<Rightarrow> (ch, Some (Errorf ''get scheduled tasks: '' err))
      | (tasks, None) \<Rightarrow> (collect_tasks config tasks ch, None))"

section \<open>The netframework collector: CLR exceptions and CLR JIT\<close>

record Win32_PerfRawData_NETFramework_NETCLRExceptions = Named +
  NumberofExcepsThrown :: "32 word"
  NumberofExcepsThrownPersec :: "32 word"
  NumberofFiltersPersec :: "32 word"
  NumberofFinallysPersec :: "32 word"
  ThrowToCatchDepthPersec :: "32 word"

record Win32_PerfRawData_NETFramework_NETCLRJit = Named +
  Frequency_PerfTime :: "32 word"
  ILBytesJittedPersec :: "32 word"
  NumberofILBytesJitted :: "32 word"
  NumberofMethodsJitted :: "32 word"
  PercentTimeinJit :: "32 word"
  StandardJitFailures :: "32 word"
  TotalNumberofILBytesJitted :: "32 word"

text \<open>
  The loop of \<^verbatim>\<open>collectClrExceptions\<close> over the rows \<^verbatim>\<open>dst\<close> of the query.
\<close>

fun collectClrExceptions_rows ::
  "Win32_PerfRawData_NETFramework_NETCLRExceptions list \<Rightarrow> Metric list \<Rightarrow> Metric list" where
  "collectClrExceptions_rows [] ch = ch"
| "collectClrExceptions_rows (process # dst) ch =
     (if Name process = ''_Global_'' then collectClrExceptions_rows dst ch
      else collectClrExceptions_rows dst
             (ch @
              [MustNewConstMetric c_numberOfExceptionsThrown CounterValue
                 (float64_of_uint32 (NumberofExcepsThrown process)) [Name process],
               MustNewConstMetric c_numberOfFilters CounterValue
                 (float64_of_uint32 (NumberofFiltersPersec process)) [Name process],
               MustNewConstMetric c_numberOfFinally CounterValue
                 (float64_of_uint32 (NumberofFinallysPersec process)) [Name process],
               MustNewConstMetric c_throwToCatchDepth CounterValue
                 (float64_of_uint32 (ThrowToCatchDepthPersec process)) [Name process]]))"

text \<open>
  \<^verbatim>\<open>collectClrExceptions\<close>, given the outcome of \<^verbatim>\<open>c.miSession.Query\<close>: its error, or
  the rows it put into \<^verbatim>\<open>dst\<close>.
\<close>

definition collectClrExceptions ::
  "error + Win32_PerfRawData_NETFramework_NETCLRExceptions list \<Rightarrow> Metric list \<Rightarrow>
   Metric list \<times> error option" where
  "collectClrExceptions query ch =
     (case query of
        Inl err \<Rightarrow> (ch, Some (Errorf ''WMI query failed: '' err))
      | Inr dst \<Rightarrow> (collectClrExceptions_rows dst ch, None))"

fun collectClrJIT_rows ::
  "Win32_PerfRawData_NETFramework_NETCLRJit list \<Rightarrow> Metric list \<Rightarrow> Metric list" where
  "collectClrJIT_rows [] ch = ch"
| "collectClrJIT_rows (process # dst) ch =
     (if Name process = ''_Global_'' then collectClrJIT_rows dst ch
      else collectClrJIT_rows dst
             (ch @
              [MustNewConstMetric c_numberOfMethodsJitted CounterValue
                 (float64_of_uint32 (NumberofMethodsJitted process)) [Name process],
               MustNewConstMetric c_timeInJit GaugeValue
                 (float64_div (float64_of_uint32 (PercentTimeinJit process))
                    (float64_of_uint32 (Frequency_PerfTime process)))
                 [Name process],
               MustNewConstMetric c_standardJitFailures GaugeValue
                 (float64_of_uint32 (StandardJitFailures process)) [Name process],
               MustNewConstMetric c_totalNumberOfILBytesJitted CounterValue
                 (float64_of_uint32 (TotalNumberofILBytesJitted process)) [Name process]]))"

definition collectClrJIT ::
  "error + Win32_PerfRawData_NETFramework_NETCLRJit list \<Rightarrow> Metric list \<Rightarrow>
   Metric list \<times> error option" where
  "collectClrJIT query ch =
     (case query of
        Inl err \<Rightarrow> (ch, Some (Errorf ''WMI query failed: '' err))
      | Inr dst \<Rightarrow> (collectClrJIT_rows dst ch, None))"

section \<open>The vmware collector\<close>

text \<open>
  The rows the two pdh collectors fill, with the fields \<^verbatim>\<open>vmware.go\<close> reads (their
  declaration is in another file of the package).
\<close>

record perfDataCounterValuesCPU =
  CPULimitMHz :: float64
  CPUReservationMHz :: float64
  CPUShares :: float64
  CPUStolenMs :: float64
  CPUTimePercents :: float64
  CPUEffectiveVMSpeedMHz :: float64
  CPUHostProcessorSpeedMHz :: float64

record perfDataCounterValuesMemory =
  MemActiveMB :: float64
  MemBalloonedMB :: float64
  MemLimitMB :: float64
  MemMappedMB :: float64
  MemOverheadMB :: float64
  MemReservationMB :: float64
  MemSharedMB :: float64
  MemSharedSavedMB :: float64
  MemShares :: float64
  MemSwappedMB :: float64
  MemTargetSizeMB :: float64
  MemUsedMB :: float64

text \<open>
  The two unit conversions of the package \<^verbatim>\<open>utils\<close> (not part of these files) are
  parameters of the collector.
\<close>

record utils =
  MBToBytes :: "float64 \<Rightarrow> float64"
  MilliSecToSec :: "float64 \<Rightarrow> float64"

text \<open>A pdh collector made by \<^verbatim>\<open>pdh.NewCollector\<close>, named by its counter object.\<close>

datatype pdh_Collector = pdh_Collector string

record Collector =
  perfDataCollectorCPU :: "pdh_Collector option"
  perfDataCollectorMemory :: "pdh_Collector option"

text \<open>
  \<^verbatim>\<open>Build\<close>, given the errors of the two calls of \<^verbatim>\<open>pdh.NewCollector\<close> (\<open>None\<close> when
  the call succeeds): the collector afterwards and the error returned. The descriptors it
  creates are the constants of \<open>Desc\<close>.
\<close>

definition Build :: "error option \<Rightarrow> error option \<Rightarrow> Collector \<Rightarrow> Collector \<times> error option" where
  "Build newCPU newMemory c =
     (let errs = [];
          c = c\<lparr>perfDataCollectorCPU :=
                  (case newCPU of None \<Rightarrow> Some (pdh_Collector ''VM Processor'') | Some err \<Rightarrow> None)\<rparr>;
          errs = (case newCPU of
                    None \<Rightarrow> errs
                  | Some err \<Rightarrow> errs @ [Errorf ''failed to create VM Processor collector: '' err]);
          c = c\<lparr>perfDataCollectorMemory :=
                  (case newMemory of None \<Rightarrow> Some (pdh_Collector ''VM Memory'') | Some err \<Rightarrow> None)\<rparr>;
          errs = (case newMemory of
                    None \<Rightarrow> errs
                  | Some err \<Rightarrow> errs @ [Errorf ''failed to create VM Memory collector: '' err])
      in (c, errors_Join errs))"

text \<open>
  \<^verbatim>\<open>collectMem\<close>, given the outcome of \<^verbatim>\<open>c.perfDataCollectorMemory.Collect\<close>: its
  error, or the rows it put into \<^verbatim>\<open>c.perfDataObjectMemory\<close>. Reading element 0 of an
  empty slice panics, before anything is sent.
\<close>

definition collectMem ::
  "utils \<Rightarrow> error + perfDataCounterValuesMemory list \<Rightarrow> Metric list \<Rightarrow> Metric list \<times> completion" where
  "collectMem u query ch =
     (case query of
        Inl err \<Rightarrow> (ch, Returned (Some (Errorf ''failed to collect VM Memory metrics: '' err)))
      | Inr perfDataObjectMemory \<Rightarrow>
          (case perfDataObjectMemory of
             [] \<Rightarrow> (ch, Panicked)
           | m0 # _ \<Rightarrow>
               (ch @
                [MustNewConstMetric c_memActive GaugeValue (MBToBytes u (MemActiveMB m0)) [],
                 MustNewConstMetric c_memBallooned GaugeValue (MBToBytes u (MemBalloonedMB m0)) [],
                 MustNewConstMetric c_memLimit GaugeValue (MBToBytes u (MemLimitMB m0)) [],
                 MustNewConstMetric c_memMapped GaugeValue (MBToBytes u (MemMappedMB m0)) [],
                 MustNewConstMetric c_memOverhead GaugeValue (MBToBytes u (MemOverheadMB m0)) [],
                 MustNewConstMetric c_memReservation GaugeValue (MBToBytes u (MemReservationMB m0)) [],
                 MustNewConstMetric c_memShared GaugeValue (MBToBytes u (MemSharedMB m0)) [],
                 MustNewConstMetric c_memSharedSaved GaugeValue (MBToBytes u (MemSharedSavedMB m0)) [],
                 MustNewConstMetric c_memShares GaugeValue (MemShares m0) [],
                 MustNewConstMetric c_memSwapped GaugeValue (MBToBytes u (MemSwappedMB m0)) [],
                 MustNewConstMetric c_memTargetSize GaugeValue (MBToBytes u (MemTargetSizeMB m0)) [],
                 MustNewConstMetric c_memUsed GaugeValue (MBToBytes u (MemUsedMB m0)) []],
                Returned None)))"

definition collectCpu ::
  "utils \<Rightarrow> error + perfDataCounterValuesCPU list \<Rightarrow> Metric list \<Rightarrow> Metric list \<times> completion" where
  "collectCpu u query ch =
     (case query of
        Inl err \<Rightarrow> (ch, Returned (Some (Errorf ''failed to collect VM CPU metrics: '' err)))
      | Inr perfDataObjectCPU \<Rightarrow>
          (case perfDataObjectCPU of
             [] \<Rightarrow> (ch, Panicked)
           | c0 # _ \<Rightarrow>
               (ch @
                [MustNewConstMetric c_cpuLimitMHz GaugeValue (CPULimitMHz c0) [],
                 MustNewConstMetric c_cpuReservationMHz GaugeValue (CPUReservationMHz c0) [],
                 MustNewConstMetric c_cpuShares GaugeValue (CPUShares c0) [],
                 MustNewConstMetric c_cpuStolenTotal CounterValue (MilliSecToSec u (CPUStolenMs c0)) [],
                 MustNewConstMetric c_cpuTimeTotal CounterValue (MilliSecToSec u (CPUTimePercents c0)) [],
                 MustNewConstMetric c_cpuEffectiveVMSpeedMHz GaugeValue (CPUEffectiveVMSpeedMHz c0) [],
                 MustNewConstMetric c_hostProcessorSpeedMHz GaugeValue (CPUHostProcessorSpeedMHz c0) []],
                Returned None)))"

text \<open>
  \<^verbatim>\<open>Collect\<close>, given the outcomes of the two pdh queries. A panic of \<^verbatim>\<open>collectCpu\<close>
  ends the call before \<^verbatim>\<open>collectMem\<close> runs.
\<close>

definition Collect ::
  "utils \<Rightarrow> error + perfDataCounterValuesCPU list \<Rightarrow> error + perfDataCounterValuesMemory list \<Rightarrow>
   Metric list \<Rightarrow> Metric list \<times> completion" where
  "Collect u queryCPU queryMemory ch =
     (let errs = []
      in case collectCpu u queryCPU ch of
           (ch1, Panicked) \<Rightarrow> (ch1, Panicked)
         | (ch1, Returned r1) \<Rightarrow>
             (let errs = (case r1 of
                            None \<Rightarrow> errs
                          | Some err \<Rightarrow> errs @ [Errorf ''failed collecting vmware cpu metrics: '' err])
              in case collectMem u queryMemory ch1 of
                   (ch2, Panicked) \<Rightarrow> (ch2, Panicked)
                 | (ch2, Returned r2) \<Rightarrow>
                     (let errs = (case r2 of
                                    None \<Rightarrow> errs
                                  | Some err \<Rightarrow>
                                      errs @ [Errorf ''failed collecting vmware memory metrics: '' err])
                      in (ch2, Returned (errors_Join errs)))))"

section \<open>Properties\<close>

subsection \<open>Helper facts: errors and loops\<close>

lemma errors_Is_refl: "errors_Is e e"
  by (cases e) simp_all

lemma collectClrExceptions_rows_eq:
  "collectClrExceptions_rows dst ch =
     ch @ concat (map (\<lambda>process.
       if Name process = ''_Global_'' then []
       else [MustNewConstMetric c_numberOfExceptionsThrown CounterValue
               (float64_of_uint32 (NumberofExcepsThrown process)) [Name process],
             MustNewConstMetric c_numberOfFilters CounterValue
               (float64_of_uint32 (NumberofFiltersPersec process)) [Name process],
             MustNewConstMetric c_numberOfFinally CounterValue
               (float64_of_uint32 (NumberofFinallysPersec process)) [Name process],
             MustNewConstMetric c_throwToCatchDepth CounterValue
               (float64_of_uint32 (ThrowToCatchDepthPersec process)) [Name process]]) dst)"
  by (induction dst arbitrary: ch) simp_all

lemma collectClrJIT_rows_eq:
  "collectClrJIT_rows dst ch =
     ch @ concat (map (\<lambda>process.
       if Name process = ''_Global_'' then []
       else [MustNewConstMetric c_numberOfMethodsJitted CounterValue
               (float64_of_uint32 (NumberofMethodsJitted process)) [Name process],
             MustNewConstMetric c_timeInJit GaugeValue
               (float64_div (float64_of_uint32 (PercentTimeinJit process))
                  (float64_of_uint32 (Frequency_PerfTime process)))
               [Name process],
             MustNewConstMetric c_standardJitFailures GaugeValue
               (float64_of_uint32 (StandardJitFailures process)) [Name process],
             MustNewConstMetric c_totalNumberOfILBytesJitted CounterValue
               (float64_of_uint32 (TotalNumberofILBytesJitted process)) [Name process]]) dst)"
  by (induction dst arbitrary: ch) simp_all

lemma ToLower_names:
  "strings_ToLower ''Unknown'' = ''unknown''"
  "strings_ToLower ''Disabled'' = ''disabled''"
  "strings_ToLower ''Queued'' = ''queued''"
  "strings_ToLower ''Ready'' = ''ready''"
  "strings_ToLower ''Running'' = ''running''"
  "strings_ToLower '''' = ''''"
  by code_simp+

lemma TaskState_String_RUNNING: "TaskState_String TASK_STATE_RUNNING = ''Running''"
  by (simp add: TaskState_String_def TASK_STATE_RUNNING_def TASK_STATE_UNKNOWN_def
      TASK_STATE_DISABLED_def TASK_STATE_QUEUED_def TASK_STATE_READY_def)

lemma collect_states_eq:
  "collect_states task states ch =
     ch @ map (\<lambda>state. MustNewConstMetric c_state GaugeValue
                 (if strings_ToLower (TaskState_String (State task)) = state
                  then Finite False 1 else Finite False 0) [Path task, state]) states"
  by (induction states arbitrary: ch) simp_all

lemma collect_task_append:
  "collect_task config task ch = ch @ collect_task config task []"
  by (simp add: collect_task_def collect_states_eq Let_def)

lemma collect_tasks_eq:
  "collect_tasks config tasks ch = ch @ concat (map (\<lambda>task. collect_task config task []) tasks)"
proof (induction tasks arbitrary: ch)
  case Nil
  show ?case by simp
next
  case (Cons task tasks)
  show ?case
    using Cons.IH [of "collect_task config task ch"] collect_task_append [of config task ch]
    by simp
qed

lemma instance_emitted_append:
  "instance_emitted p (xs @ ys) \<longleftrightarrow> instance_emitted p xs \<or> instance_emitted p ys"
  by (simp add: instance_emitted_def)

lemma instance_emitted_collect_task:
  "instance_emitted p (collect_task config task []) \<longleftrightarrow>
     Path task = p \<and> MatchString (TaskInclude config) p \<and> \<not> MatchString (TaskExclude config) p"
  by (auto simp: collect_task_def collect_states_eq TASK_STATES_def Let_def
      instance_emitted_def MustNewConstMetric_def)

subsection \<open>Helper facts: the traversal\<close>

lemma ForEach_tasks:
  "list_all (\<lambda>v. \<not> isl v) tasks \<Longrightarrow>
   ForEach tasks
     (\<lambda>v s. case v of
              Inl err \<Rightarrow> (Some err, s)
            | Inr parsedTask \<Rightarrow> (None, s\<lparr>scheduledTasks := scheduledTasks s @ [parsedTask]\<rparr>)) w =
   (None, w\<lparr>scheduledTasks := scheduledTasks w @ map projr (filter (\<lambda>v. \<not> isl v) tasks)\<rparr>)"
proof (induction tasks arbitrary: w)
  case Nil
  show ?case by simp
next
  case (Cons v tasks)
  then show ?case by (cases v) simp_all
qed

lemma ForEach_subFolders:
  assumes "\<And>x s. x \<in> set subFolders \<Longrightarrow>
      f x s = (None, s\<lparr>scheduledTasks := scheduledTasks s @ A x, calls := calls s @ B x\<rparr>)"
  shows "ForEach subFolders f w =
    (None, w\<lparr>scheduledTasks := scheduledTasks w @ concat (map A subFolders),
             calls := calls w @ concat (map B subFolders)\<rparr>)"
  using assms
proof (induction subFolders arbitrary: w)
  case Nil
  show ?case by simp
next
  case (Cons x xs)
  have "ForEach xs f u =
      (None, u\<lparr>scheduledTasks := scheduledTasks u @ concat (map A xs),
               calls := calls u @ concat (map B xs)\<rparr>)" for u
    by (rule Cons.IH) (simp add: Cons.prems)
  then show ?case by (simp add: Cons.prems)
qed

lemma fetchTasksInFolder_ok:
  "GetTasks folder = Inr tasks \<Longrightarrow> list_all (\<lambda>v. \<not> isl v) tasks \<Longrightarrow>
   fetchTasksInFolder folder w =
     (None, w\<lparr>scheduledTasks := scheduledTasks w @ map projr (filter (\<lambda>v. \<not> isl v) tasks),
              calls := calls w @ [(folderPath folder, ''GetTasks'')]\<rparr>)"
  by (simp add: fetchTasksInFolder_def CallMethod_def ForEach_tasks)

lemma concat_map_concat:
  "concat (map f (concat xss)) = concat (map (\<lambda>xs. concat (map f xs)) xss)"
  by (induction xss) simp_all

lemma tasks_in_leaf_tasks: "mset (leaf_tasks folder) = tasks_in folder"
proof (induction folder rule: leaf_tasks.induct)
  case (1 p gt gf)
  have "mset (concat (map leaf_tasks subFolders)) = sum_list (map tasks_in subFolders)"
    if "gf = Inr subFolders" for subFolders
    using "1.IH" [OF that] by (induction subFolders) (simp_all add: that)
  then show ?case by (simp split: sum.splits)
qed

lemma fetchTasksRecursively_ok:
  "all_calls_succeed folder \<Longrightarrow>
   fetchTasksRecursively folder w =
     (None, w\<lparr>scheduledTasks := scheduledTasks w @ leaf_tasks folder,
              calls := calls w @
                concat (map (\<lambda>p. [(p, ''GetTasks''), (p, ''GetFolders'')]) (folder_paths folder))\<rparr>)"
proof (induction folder arbitrary: w rule: all_calls_succeed.induct)
  case (1 p gt gf)
  from "1.prems" obtain tasks subFolders where
    gt: "gt = Inr tasks" and tasks: "list_all (\<lambda>v. \<not> isl v) tasks" and
    gf: "gf = Inr subFolders" and subs: "list_all all_calls_succeed subFolders"
    by (auto split: sum.splits)
  have rec: "fetchTasksRecursively x s =
      (None, s\<lparr>scheduledTasks := scheduledTasks s @ leaf_tasks x,
               calls := calls s @
                 concat (map (\<lambda>p. [(p, ''GetTasks''), (p, ''GetFolders'')]) (folder_paths x))\<rparr>)"
    if "x \<in> set subFolders" for x s
    using "1.IH" [OF gf that] subs that by (simp add: list_all_iff)
  show ?case
    by (subst fetchTasksRecursively.simps)
      (simp add: gt gf fetchTasksInFolder_ok [OF _ tasks] CallMethod_def
        ForEach_subFolders [OF rec] concat_map_concat comp_def)
qed

subsection \<open>Helper facts: rounding to float64\<close>

lemma bit_length_nonneg: "0 \<le> bit_length n"
  by (induction n rule: bit_length.induct) (subst bit_length.simps, simp)

lemma bit_length_le: "n < 2 ^ m \<Longrightarrow> bit_length n \<le> int m"
proof (induction m arbitrary: n)
  case 0
  then show ?case by (subst bit_length.simps) simp
next
  case (Suc m)
  have "n div 2 < 2 ^ m" using Suc.prems by simp
  then have "bit_length (n div 2) \<le> int m" by (rule Suc.IH)
  then show ?case by (subst bit_length.simps) simp
qed

lemma bit_length_1: "bit_length 1 = 1"
  by (simp add: bit_length.simps)

lemma bit_length_2: "bit_length 2 = 2"
  by (simp add: bit_length.simps)

lemma round_half_even_of_int: "round_half_even (of_int m) = m"
  by (simp add: round_half_even_def)

lemma round_half_even_le: "x \<le> of_int N \<Longrightarrow> round_half_even x \<le> N"
proof -
  assume le: "x \<le> of_int N"
  show ?thesis
  proof (cases "x = of_int N")
    case True
    then show ?thesis by (simp add: round_half_even_of_int)
  next
    case False
    with le have "x < of_int N" by simp
    then have "\<lfloor>x\<rfloor> < N" by (simp add: floor_less_iff)
    then show ?thesis by (simp add: round_half_even_def Let_def)
  qed
qed

lemma round_half_even_nonneg: "0 \<le> x \<Longrightarrow> 0 \<le> round_half_even x"
  by (simp add: round_half_even_def Let_def)

lemma pow2_pos: "0 < pow2 e"
  by (simp add: pow2_def)

lemma pow2_nonpos: "e \<le> 0 \<Longrightarrow> pow2 e = 1 / of_int (2 ^ nat (- e))"
  by (simp add: pow2_def)

lemma floor_log2_le:
  assumes "0 < q" and "q < 2 ^ Suc m"
  shows "floor_log2 q \<le> int m"
proof (cases "1 \<le> q")
  case True
  have "\<lfloor>q\<rfloor> < 2 ^ Suc m"
    using assms(2) by (simp add: floor_less_iff)
  then have "bit_length \<lfloor>q\<rfloor> \<le> int (Suc m)" by (rule bit_length_le)
  with True show ?thesis by (simp add: floor_log2_def)
next
  case False
  have "0 \<le> bit_length (\<lceil>1 / q\<rceil> - 1)" by (rule bit_length_nonneg)
  then show ?thesis using False by (simp add: floor_log2_def)
qed

text \<open>An integer below \<open>2 ^ 53\<close> is a float64 value: rounding leaves it as it is.\<close>

lemma round_float64_int:
  assumes "0 \<le> n" and "n < 2 ^ 53"
  shows "round_float64 s (of_int n) = Finite s (of_int n)"
proof (cases "n = 0")
  case True
  then show ?thesis by (simp add: round_float64_def)
next
  case False
  with assms have pos: "0 < (of_int n :: rat)" by simp
  have lt: "(of_int n :: rat) < 2 ^ 53"
    using assms(2) by (metis of_int_less_iff of_int_numeral of_int_power)
  then have "(of_int n :: rat) < 2 ^ Suc 52" by simp
  with pos have "floor_log2 (of_int n) \<le> int 52" by (rule floor_log2_le)
  then have e: "max (floor_log2 (of_int n) - 52) (- 1074) \<le> 0" by simp
  define e where "e = max (floor_log2 (of_int n) - 52) (- 1074)"
  have e0: "e \<le> 0" using e by (simp add: e_def)
  have q: "(of_int n :: rat) / pow2 e = of_int (n * 2 ^ nat (- e))"
    by (simp add: pow2_nonpos [OF e0])
  have r: "of_int (round_half_even (of_int n / pow2 e)) * pow2 e = (of_int n :: rat)"
    unfolding q round_half_even_of_int by (simp add: pow2_nonpos [OF e0])
  have "(of_int n :: rat) < 2 ^ 1024"
  proof -
    note lt
    also have "(2 ^ 53 :: rat) \<le> 2 ^ 1024" by (rule power_increasing) simp_all
    finally show ?thesis .
  qed
  then show ?thesis
    using False r by (simp add: round_float64_def Let_def e_def [symmetric])
qed

lemma float64_of_uint32_exact: "float64_of_uint32 v = Finite False (of_int (uint v))"
proof -
  have "uint v < 2 ^ 32" using uint_bounded [of v] by simp
  also have "\<dots> < (2 ^ 53 :: int)" by simp
  finally show ?thesis
    unfolding float64_of_uint32_def by (intro round_float64_int) simp_all
qed

text \<open>
  A quotient \<open>0 < q < 2 ^ 53\<close> rounds to a finite value that is not negative, and to at
  most 1 when \<open>q \<le> 1\<close>.
\<close>

lemma round_float64_quotient:
  assumes "0 < q" and "q < 2 ^ 53"
  shows "\<exists>r. round_float64 s q = Finite s r \<and> 0 \<le> r \<and> (q \<le> 1 \<longrightarrow> r \<le> 1)"
proof -
  define e where "e = max (floor_log2 q - 52) (- 1074)"
  have "q < 2 ^ Suc 52" using assms(2) by simp
  with assms(1) have "floor_log2 q \<le> int 52" by (rule floor_log2_le)
  then have e0: "e \<le> 0" by (simp add: e_def)
  define N :: int where "N = 2 ^ nat (- e)"
  have p: "pow2 e = 1 / of_int N" by (simp add: pow2_nonpos [OF e0] N_def)
  have Npos: "0 < N" by (simp add: N_def)
  define k where "k = round_half_even (q / pow2 e)"
  define r :: rat where "r = of_int k * pow2 e"
  have x: "q / pow2 e = q * of_int N" by (simp add: p)
  have k0: "0 \<le> k"
    unfolding k_def using assms(1) Npos by (intro round_half_even_nonneg) (simp add: x)
  have r0: "0 \<le> r" using k0 pow2_pos [of e] by (simp add: r_def)
  have "q * of_int N \<le> of_int (2 ^ 53 * N)"
    using assms(2) Npos by (simp add: mult_right_mono)
  then have "k \<le> 2 ^ 53 * N" unfolding k_def x by (rule round_half_even_le)
  then have "(of_int k :: rat) \<le> of_int (2 ^ 53 * N)" by (simp only: of_int_le_iff)
  then have "r \<le> 2 ^ 53" using Npos by (simp add: r_def p field_simps)
  also have "\<dots> < (2 ^ 1024 :: rat)" by (rule power_strict_increasing) simp_all
  finally have fin: "\<not> 2 ^ 1024 \<le> r" by simp
  have one: "r \<le> 1" if "q \<le> 1"
  proof -
    have "q * of_int N \<le> of_int N" using that Npos by (simp add: mult_le_cancel_right1)
    then have "k \<le> N" unfolding k_def x by (rule round_half_even_le)
    then have "(of_int k :: rat) \<le> of_int N" by (simp only: of_int_le_iff)
    then show ?thesis using Npos by (simp add: r_def p field_simps)
  qed
  have "round_float64 s q = Finite s r"
    using assms(1) fin by (simp add: round_float64_def Let_def e_def [symmetric] k_def r_def)
  with r0 one show ?thesis by blast
qed

lemma round_float64_half: "round_float64 False (1 / 2) = Finite False (1 / 2)"
  by (simp add: round_float64_def floor_log2_def pow2_def round_half_even_def Let_def bit_length_1)

lemma round_float64_two: "round_float64 False 2 = Finite False 2"
  by (simp add: round_float64_def floor_log2_def pow2_def round_half_even_def Let_def bit_length_2)

lemma int_quotient:
  fixes a b :: int
  assumes "0 \<le> a" and "a < 2 ^ 32" and "1 \<le> b"
  shows "0 \<le> (of_int a / of_int b :: rat)"
    and "(of_int a / of_int b :: rat) < 2 ^ 53"
    and "a \<le> b \<Longrightarrow> (of_int a / of_int b :: rat) \<le> 1"
proof -
  have fr: "(1::rat) \<le> of_int b" using assms(3) by (metis of_int_1 of_int_le_iff)
  have p0: "(0::rat) \<le> of_int a" using assms(1) by simp
  show "0 \<le> (of_int a / of_int b :: rat)" using p0 fr by simp
  have "(of_int a :: rat) < 2 ^ 32"
    using assms(2) by (metis of_int_less_iff of_int_numeral of_int_power)
  also have "\<dots> < (2 ^ 53 :: rat)" by (rule power_strict_increasing) simp_all
  finally have p53: "(of_int a :: rat) < 2 ^ 53" .
  have "(of_int a / of_int b :: rat) \<le> of_int a"
    using p0 fr by (simp add: divide_le_eq mult_le_cancel_left1)
  with p53 show "(of_int a / of_int b :: rat) < 2 ^ 53" by simp
  show "(of_int a / of_int b :: rat) \<le> 1" if "a \<le> b"
  proof -
    have "(of_int a :: rat) \<le> of_int b" using that by (simp only: of_int_le_iff)
    then show ?thesis using fr by (simp add: divide_le_eq)
  qed
qed

lemma uint_nonzero: "f \<noteq> 0 \<Longrightarrow> 1 \<le> uint f"
proof -
  assume "f \<noteq> 0"
  then have "uint f \<noteq> 0" by (simp add: uint_0_iff)
  moreover have "0 \<le> uint f" by simp
  ultimately show ?thesis by linarith
qed

lemma jit_quotient_nonzero:
  fixes p f :: "32 word"
  assumes "f \<noteq> 0"
  shows "float64_div (float64_of_uint32 p) (float64_of_uint32 f) =
           round_float64 False (of_int (uint p) / of_int (uint f))"
    and "is_finite (float64_div (float64_of_uint32 p) (float64_of_uint32 f))"
    and "p \<le> f \<Longrightarrow> is_fraction (float64_div (float64_of_uint32 p) (float64_of_uint32 f))"
proof -
  define a where "a = uint p"
  define b where "b = uint f"
  have a0: "0 \<le> a" and a32: "a < 2 ^ 32"
    using uint_bounded [of p] by (simp_all add: a_def)
  have b1: "1 \<le> b" using assms by (simp add: b_def uint_nonzero)
  note q = int_quotient [OF a0 a32 b1]
  let ?q = "of_int a / of_int b :: rat"
  have b0: "(of_int b :: rat) \<noteq> 0" using b1 by simp
  have eq: "float64_div (float64_of_uint32 p) (float64_of_uint32 f) = round_float64 False ?q"
    using b0 unfolding float64_of_uint32_exact a_def [symmetric] b_def [symmetric]
    by (simp del: of_int_eq_0_iff)
  then show "float64_div (float64_of_uint32 p) (float64_of_uint32 f) =
      round_float64 False (of_int (uint p) / of_int (uint f))"
    by (simp only: a_def b_def)
  have r: "\<exists>r. round_float64 False ?q = Finite False r \<and> 0 \<le> r \<and> (?q \<le> 1 \<longrightarrow> r \<le> 1)"
  proof (cases "?q = 0")
    case True
    then show ?thesis by (simp add: round_float64_def)
  next
    case False
    with q(1) have "0 < ?q" by (metis order_less_le)
    then show ?thesis using q(2) by (rule round_float64_quotient)
  qed
  then show "is_finite (float64_div (float64_of_uint32 p) (float64_of_uint32 f))"
    unfolding eq by auto
  show "is_fraction (float64_div (float64_of_uint32 p) (float64_of_uint32 f))" if "p \<le> f"
  proof -
    have "a \<le> b" using that by (simp add: a_def b_def word_le_def)
    then have "?q \<le> 1" by (rule q(3))
    with r show ?thesis unfolding eq by (auto simp: is_fraction_def)
  qed
qed

lemma jit_quotient_zero:
  "float64_div (float64_of_uint32 p) (float64_of_uint32 0) =
     (if p = 0 then NaN else Infinity False)"
proof -
  have "(of_int (uint p) :: rat) = 0 \<longleftrightarrow> p = 0"
    by (metis of_int_eq_0_iff unsigned_eq_0_iff)
  then show ?thesis by (simp add: float64_of_uint32_exact)
qed

lemma timeInJit_samples:
  "map val (filter (\<lambda>m. desc m = c_timeInJit) (fst (collectClrJIT (Inr dst) []))) =
     map (\<lambda>process. float64_div (float64_of_uint32 (PercentTimeinJit process))
                        (float64_of_uint32 (Frequency_PerfTime process)))
       (filter (\<lambda>process. Name process \<noteq> ''_Global_'') dst)"
  unfolding collectClrJIT_def
  by (induction dst) (simp_all add: collectClrJIT_rows_eq MustNewConstMetric_def)

section \<open>The claims\<close>

subsection \<open>Include and exclude patterns\<close>

text \<open>
  Claim C1, as the code has it. The scheduled_task collector sends samples for a task
  path exactly when a task with that path exists, the include pattern matches the path
  and the exclude pattern does not; when \<^verbatim>\<open>getScheduledTasks\<close> fails it sends nothing.
  The CLR exceptions and CLR JIT collectors have no include or exclude pattern: they send
  samples for a process name exactly when a row has that name and the name is not
  \<^verbatim>\<open>_Global_\<close>.
\<close>

theorem include_exclude_filter:
  "(instance_emitted p (fst (collect config (tasks, None) [])) \<longleftrightarrow>
      list_ex (\<lambda>task. Path task = p) tasks \<and>
      MatchString (TaskInclude config) p \<and> \<not> MatchString (TaskExclude config) p) \<and>
   fst (collect config (tasks, Some err) []) = [] \<and>
   (instance_emitted p (fst (collectClrExceptions (Inr dst) [])) \<longleftrightarrow>
      list_ex (\<lambda>process. Name process = p) dst \<and> p \<noteq> ''_Global_'') \<and>
   (instance_emitted p (fst (collectClrJIT (Inr jit) [])) \<longleftrightarrow>
      list_ex (\<lambda>process. Name process = p) jit \<and> p \<noteq> ''_Global_'')"
proof -
  have task: "instance_emitted p (fst (collect config (tasks, None) [])) \<longleftrightarrow>
      list_ex (\<lambda>task. Path task = p) tasks \<and>
      MatchString (TaskInclude config) p \<and> \<not> MatchString (TaskExclude config) p"
    by (induction tasks)
      (auto simp: collect_def collect_tasks_eq instance_emitted_append
        instance_emitted_collect_task, simp_all add: instance_emitted_def)
  have exc: "instance_emitted p (collectClrExceptions_rows dst ch) \<longleftrightarrow>
      instance_emitted p ch \<or> list_ex (\<lambda>process. Name process = p) dst \<and> p \<noteq> ''_Global_''"
    for ch
    by (induction dst arbitrary: ch)
      (auto simp: instance_emitted_def MustNewConstMetric_def)
  have jit: "instance_emitted p (collectClrJIT_rows jit ch) \<longleftrightarrow>
      instance_emitted p ch \<or> list_ex (\<lambda>process. Name process = p) jit \<and> p \<noteq> ''_Global_''"
    for ch
    by (induction jit arbitrary: ch)
      (auto simp: instance_emitted_def MustNewConstMetric_def)
  have empty: "\<not> instance_emitted p []"
    by (simp add: instance_emitted_def)
  show ?thesis
    using task exc [of "[]"] jit [of "[]"] empty
    by (simp add: collect_def collectClrExceptions_def collectClrJIT_def)
qed

text \<open>
  Claim C1 as stated fails for the CLR collectors. Take the include pattern
  \<^verbatim>\<open>notepad\<close> and an empty exclude pattern: the process name \<^verbatim>\<open>w3wp\<close> does not
  match the include pattern, and both CLR collectors send its samples all the same.
\<close>

theorem clr_ignores_patterns_counterexample:
  "instance_emitted ''w3wp''
     (fst (collectClrExceptions
        (Inr [\<lparr>Name = ''w3wp'', NumberofExcepsThrown = 1, NumberofExcepsThrownPersec = 0,
               NumberofFiltersPersec = 0, NumberofFinallysPersec = 0,
               ThrowToCatchDepthPersec = 0\<rparr>]) [])) \<and>
   instance_emitted ''w3wp''
     (fst (collectClrJIT
        (Inr [\<lparr>Name = ''w3wp'', Frequency_PerfTime = 100, ILBytesJittedPersec = 0,
               NumberofILBytesJitted = 0, NumberofMethodsJitted = 1, PercentTimeinJit = 50,
               StandardJitFailures = 0, TotalNumberofILBytesJitted = 0\<rparr>]) [])) \<and>
   \<not> (MatchString (RegExpLiteral ''notepad'') ''w3wp'' \<and> \<not> MatchString RegExpEmpty ''w3wp'')"
  by (simp add: collectClrExceptions_def collectClrJIT_def instance_emitted_def
      MustNewConstMetric_def MatchString_def RegExpEmpty_def RegExpLiteral_def)

subsection \<open>The aggregate row of the CLR collectors\<close>

text \<open>
  Claim C2. Given the rows a query returned, the CLR exceptions collector and the CLR JIT
  collector send, after what the channel held, the four samples of every row whose name
  is not \<^verbatim>\<open>_Global_\<close>, in the order of the rows, and nothing for a row named
  \<^verbatim>\<open>_Global_\<close>.
\<close>

theorem sentinel_rows_skipped:
  "fst (collectClrExceptions (Inr dst) ch) =
     ch @ concat (map (\<lambda>process.
       if Name process = ''_Global_'' then []
       else [MustNewConstMetric c_numberOfExceptionsThrown CounterValue
               (float64_of_uint32 (NumberofExcepsThrown process)) [Name process],
             MustNewConstMetric c_numberOfFilters CounterValue
               (float64_of_uint32 (NumberofFiltersPersec process)) [Name process],
             MustNewConstMetric c_numberOfFinally CounterValue
               (float64_of_uint32 (NumberofFinallysPersec process)) [Name process],
             MustNewConstMetric c_throwToCatchDepth CounterValue
               (float64_of_uint32 (ThrowToCatchDepthPersec process)) [Name process]]) dst) \<and>
   fst (collectClrJIT (Inr jit) ch) =
     ch @ concat (map (\<lambda>process.
       if Name process = ''_Global_'' then []
       else [MustNewConstMetric c_numberOfMethodsJitted CounterValue
               (float64_of_uint32 (NumberofMethodsJitted process)) [Name process],
             MustNewConstMetric c_timeInJit GaugeValue
               (float64_div (float64_of_uint32 (PercentTimeinJit process))
                  (float64_of_uint32 (Frequency_PerfTime process)))
               [Name process],
             MustNewConstMetric c_standardJitFailures GaugeValue
               (float64_of_uint32 (StandardJitFailures process)) [Name process],
             MustNewConstMetric c_totalNumberOfILBytesJitted CounterValue
               (float64_of_uint32 (TotalNumberofILBytesJitted process)) [Name process]]) jit)"
  by (simp add: collectClrExceptions_def collectClrJIT_def
      collectClrExceptions_rows_eq [of dst ch] collectClrJIT_rows_eq [of jit ch])

subsection \<open>The samples of a scheduled task\<close>

text \<open>
  Claim C3. \<^verbatim>\<open>collect\<close> sends, after what the channel held, what the body of its loop
  sends for each task, in the order of the tasks. For a task that passes the filter, the
  body keeps what the channel held and adds: when the state is \<^verbatim>\<open>TASK_STATE_RUNNING\<close>,
  exactly five state samples, with the value 1 for the label \<^verbatim>\<open>running\<close> and 0 for
  \<^verbatim>\<open>disabled\<close>, \<^verbatim>\<open>queued\<close>, \<^verbatim>\<open>ready\<close> and \<^verbatim>\<open>unknown\<close>; no other sample when the
  last result is \<^verbatim>\<open>SCHED_S_TASK_HAS_NOT_RUN\<close>; and otherwise a last_result sample (1 if
  the last result is \<^verbatim>\<open>SCHED_S_SUCCESS\<close>, else 0) and a missed_runs sample.
\<close>

theorem running_task_samples:
  assumes "\<not> MatchString (TaskExclude config) (Path task)"
    and "MatchString (TaskInclude config) (Path task)"
  shows "fst (collect config (tasks, None) ch) =
      ch @ concat (map (\<lambda>task. collect_task config task []) tasks) \<and>
    take (length ch) (collect_task config task ch) = ch \<and>
    (State task = TASK_STATE_RUNNING \<longrightarrow>
       filter (\<lambda>m. desc m = c_state) (drop (length ch) (collect_task config task ch)) =
         [MustNewConstMetric c_state GaugeValue (Finite False 0) [Path task, ''disabled''],
          MustNewConstMetric c_state GaugeValue (Finite False 0) [Path task, ''queued''],
          MustNewConstMetric c_state GaugeValue (Finite False 0) [Path task, ''ready''],
          MustNewConstMetric c_state GaugeValue (Finite False 1) [Path task, ''running''],
          MustNewConstMetric c_state GaugeValue (Finite False 0) [Path task, ''unknown'']]) \<and>
    (LastTaskResult task = SCHED_S_TASK_HAS_NOT_RUN \<longrightarrow>
       filter (\<lambda>m. desc m \<noteq> c_state) (drop (length ch) (collect_task config task ch)) = []) \<and>
    (LastTaskResult task \<noteq> SCHED_S_TASK_HAS_NOT_RUN \<longrightarrow>
       filter (\<lambda>m. desc m \<noteq> c_state) (drop (length ch) (collect_task config task ch)) =
         [MustNewConstMetric c_lastResult GaugeValue
            (if LastTaskResult task = SCHED_S_SUCCESS then Finite False 1 else Finite False 0)
            [Path task],
          MustNewConstMetric c_missedRuns GaugeValue (MissedRunsCount task) [Path task]])"
proof -
  have new: "collect_task config task ch = ch @ collect_task config task []"
    by (rule collect_task_append)
  have states: "filter (\<lambda>m. desc m = c_state) (collect_states task TASK_STATES []) =
      collect_states task TASK_STATES []"
    "filter (\<lambda>m. desc m \<noteq> c_state) (collect_states task TASK_STATES []) = []"
    by (simp_all add: collect_states_eq MustNewConstMetric_def TASK_STATES_def)
  have running: "State task = TASK_STATE_RUNNING \<Longrightarrow>
      collect_states task TASK_STATES [] =
         [MustNewConstMetric c_state GaugeValue (Finite False 0) [Path task, ''disabled''],
          MustNewConstMetric c_state GaugeValue (Finite False 0) [Path task, ''queued''],
          MustNewConstMetric c_state GaugeValue (Finite False 0) [Path task, ''ready''],
          MustNewConstMetric c_state GaugeValue (Finite False 1) [Path task, ''running''],
          MustNewConstMetric c_state GaugeValue (Finite False 0) [Path task, ''unknown'']]"
    by (simp add: collect_states_eq TASK_STATES_def TaskState_String_RUNNING ToLower_names)
  have body: "collect_task config task [] =
      collect_states task TASK_STATES [] @
      (if LastTaskResult task = SCHED_S_TASK_HAS_NOT_RUN then []
       else [MustNewConstMetric c_lastResult GaugeValue
            (if LastTaskResult task = SCHED_S_SUCCESS then Finite False 1 else Finite False 0)
            [Path task],
          MustNewConstMetric c_missedRuns GaugeValue (MissedRunsCount task) [Path task]])"
    using assms by (simp add: collect_task_def Let_def)
  have d: "drop (length ch) (collect_task config task ch) = collect_task config task []"
    by (subst new) simp
  have t: "take (length ch) (collect_task config task ch) = ch"
    by (subst new) simp
  have all: "fst (collect config (tasks, None) ch) =
      ch @ concat (map (\<lambda>task. collect_task config task []) tasks)"
    by (simp add: collect_def collect_tasks_eq)
  show ?thesis
    unfolding d t body all using states running by (simp add: MustNewConstMetric_def)
qed

text \<open>
  The theorem of C3 at two tasks of the path \<^verbatim>\<open>/backup\<close>, which the include pattern
  \<^verbatim>\<open>/backup\<close> matches and the empty exclude pattern does not: one running that has not
  run before, one ready whose last run succeeded with three missed runs.
\<close>

theorem running_task_samples_witness:
  "\<not> MatchString RegExpEmpty ''/backup'' \<and>
   MatchString (RegExpLiteral ''/backup'') ''/backup'' \<and>
   collect_task \<lparr>TaskExclude = RegExpEmpty, TaskInclude = RegExpLiteral ''/backup''\<rparr>
     \<lparr>Name = ''backup'', Path = ''/backup'', Enabled = True, State = TASK_STATE_RUNNING,
      MissedRunsCount = Finite False 0, LastTaskResult = SCHED_S_TASK_HAS_NOT_RUN\<rparr> [] =
     [MustNewConstMetric c_state GaugeValue (Finite False 0) [''/backup'', ''disabled''],
      MustNewConstMetric c_state GaugeValue (Finite False 0) [''/backup'', ''queued''],
      MustNewConstMetric c_state GaugeValue (Finite False 0) [''/backup'', ''ready''],
      MustNewConstMetric c_state GaugeValue (Finite False 1) [''/backup'', ''running''],
      MustNewConstMetric c_state GaugeValue (Finite False 0) [''/backup'', ''unknown'']] \<and>
   filter (\<lambda>m. desc m \<noteq> c_state)
     (collect_task \<lparr>TaskExclude = RegExpEmpty, TaskInclude = RegExpLiteral ''/backup''\<rparr>
        \<lparr>Name = ''backup'', Path = ''/backup'', Enabled = True, State = TASK_STATE_READY,
         MissedRunsCount = Finite False 3, LastTaskResult = SCHED_S_SUCCESS\<rparr> []) =
     [MustNewConstMetric c_lastResult GaugeValue (Finite False 1) [''/backup''],
      MustNewConstMetric c_missedRuns GaugeValue (Finite False 3) [''/backup'']]"
proof -
  let ?config = "\<lparr>TaskExclude = RegExpEmpty, TaskInclude = RegExpLiteral ''/backup''\<rparr>"
  let ?t1 = "\<lparr>Name = ''backup'', Path = ''/backup'', Enabled = True, State = TASK_STATE_RUNNING,
      MissedRunsCount = Finite False 0, LastTaskResult = SCHED_S_TASK_HAS_NOT_RUN\<rparr>"
  let ?t2 = "\<lparr>Name = ''backup'', Path = ''/backup'', Enabled = True, State = TASK_STATE_READY,
         MissedRunsCount = Finite False 3, LastTaskResult = SCHED_S_SUCCESS\<rparr>"
  have ex: "\<not> MatchString RegExpEmpty ''/backup''"
    by (simp add: MatchString_def RegExpEmpty_def)
  have inc: "MatchString (RegExpLiteral ''/backup'') ''/backup''"
    by (simp add: MatchString_def RegExpLiteral_def)
  have ran: "SCHED_S_SUCCESS \<noteq> SCHED_S_TASK_HAS_NOT_RUN"
    by (simp add: SCHED_S_SUCCESS_def SCHED_S_TASK_HAS_NOT_RUN_def)
  have ex': "\<not> MatchString (TaskExclude ?config) (Path ?t1)"
    "\<not> MatchString (TaskExclude ?config) (Path ?t2)"
    using ex by simp_all
  have inc': "MatchString (TaskInclude ?config) (Path ?t1)"
    "MatchString (TaskInclude ?config) (Path ?t2)"
    using inc by simp_all
  note at_t1 = running_task_samples
    [where config = ?config and task = ?t1 and ch = "[]" and tasks = "[?t1]", OF ex'(1) inc'(1)]
  note at_t2 = running_task_samples
    [where config = ?config and task = ?t2 and ch = "[]" and tasks = "[?t2]", OF ex'(2) inc'(2)]
  have only_states: "collect_task ?config ?t1 [] =
      filter (\<lambda>m. desc m = c_state) (collect_task ?config ?t1 [])"
    using ex inc
    by (simp add: collect_task_def collect_states_eq TASK_STATES_def MustNewConstMetric_def Let_def)
  have one: "collect_task ?config ?t1 [] =
     [MustNewConstMetric c_state GaugeValue (Finite False 0) [''/backup'', ''disabled''],
      MustNewConstMetric c_state GaugeValue (Finite False 0) [''/backup'', ''queued''],
      MustNewConstMetric c_state GaugeValue (Finite False 0) [''/backup'', ''ready''],
      MustNewConstMetric c_state GaugeValue (Finite False 1) [''/backup'', ''running''],
      MustNewConstMetric c_state GaugeValue (Finite False 0) [''/backup'', ''unknown'']]"
    by (subst only_states) (use at_t1 in simp)
  have two: "filter (\<lambda>m. desc m \<noteq> c_state) (collect_task ?config ?t2 []) =
     [MustNewConstMetric c_lastResult GaugeValue (Finite False 1) [''/backup''],
      MustNewConstMetric c_missedRuns GaugeValue (Finite False 3) [''/backup'']]"
    using at_t2 ran by simp
  from ex inc one two show ?thesis by (intro conjI)
qed

subsection \<open>VMware: Build joins the construction errors\<close>

text \<open>
  Claim C4. When both calls of \<^verbatim>\<open>pdh.NewCollector\<close> fail, \<^verbatim>\<open>Build\<close> returns one
  joined error that holds the wrapped error of the VM Processor collector and the wrapped
  error of the VM Memory collector, so that both native failures are found in it; when
  neither fails, it returns nil.
\<close>

theorem Build_joins_both:
  "snd (Build (Some e1) (Some e2) c) =
     Some (joinError [Errorf ''failed to create VM Processor collector: '' e1,
                      Errorf ''failed to create VM Memory collector: '' e2]) \<and>
   errors_Is (joinError [Errorf ''failed to create VM Processor collector: '' e1,
                         Errorf ''failed to create VM Memory collector: '' e2]) e1 \<and>
   errors_Is (joinError [Errorf ''failed to create VM Processor collector: '' e1,
                         Errorf ''failed to create VM Memory collector: '' e2]) e2 \<and>
   snd (Build None None c) = None"
  by (simp add: Build_def errors_Join_def errors_Is_refl)

subsection \<open>VMware: Collect attempts both queries\<close>

text \<open>
  Claim C5. A pdh query gives an error or, when it succeeds, the rows of its counter
  object, \<open>c0 # cs\<close> for the CPU and \<open>m0 # ms\<close> for the memory. \<^verbatim>\<open>Collect\<close> runs
  \<^verbatim>\<open>collectCpu\<close> and then \<^verbatim>\<open>collectMem\<close> whatever the first returned: when the CPU
  query fails and the memory query succeeds, it sends the twelve memory samples and
  returns the join of the wrapped CPU error; when the memory query fails and the CPU query
  succeeds, it sends the seven CPU samples and returns the join of the wrapped memory
  error; when both fail it sends nothing and returns the join of both errors, the CPU
  error first; when both succeed it sends the CPU samples, then the memory samples, and
  returns nil.
\<close>

theorem Collect_attempts_both:
  "Collect u (Inl e1) (Inr (m0 # ms)) ch =
     (fst (collectMem u (Inr (m0 # ms)) ch),
      Returned (Some (joinError [Errorf ''failed collecting vmware cpu metrics: ''
                                   (Errorf ''failed to collect VM CPU metrics: '' e1)]))) \<and>
   map desc (drop (length ch) (fst (collectMem u (Inr (m0 # ms)) ch))) =
     [c_memActive, c_memBallooned, c_memLimit, c_memMapped, c_memOverhead, c_memReservation,
      c_memShared, c_memSharedSaved, c_memShares, c_memSwapped, c_memTargetSize, c_memUsed] \<and>
   Collect u (Inr (c0 # cs)) (Inl e2) ch =
     (fst (collectCpu u (Inr (c0 # cs)) ch),
      Returned (Some (joinError [Errorf ''failed collecting vmware memory metrics: ''
                                   (Errorf ''failed to collect VM Memory metrics: '' e2)]))) \<and>
   map desc (drop (length ch) (fst (collectCpu u (Inr (c0 # cs)) ch))) =
     [c_cpuLimitMHz, c_cpuReservationMHz, c_cpuShares, c_cpuStolenTotal, c_cpuTimeTotal,
      c_cpuEffectiveVMSpeedMHz, c_hostProcessorSpeedMHz] \<and>
   Collect u (Inl e1) (Inl e2) ch =
     (ch,
      Returned (Some (joinError [Errorf ''failed collecting vmware cpu metrics: ''
                                   (Errorf ''failed to collect VM CPU metrics: '' e1),
                                 Errorf ''failed collecting vmware memory metrics: ''
                                   (Errorf ''failed to collect VM Memory metrics: '' e2)]))) \<and>
   Collect u (Inr (c0 # cs)) (Inr (m0 # ms)) ch =
     (fst (collectMem u (Inr (m0 # ms)) (fst (collectCpu u (Inr (c0 # cs)) ch))), Returned None)"
  by (simp add: Collect_def collectMem_def collectCpu_def errors_Join_def MustNewConstMetric_def)

subsection \<open>The traversal of the task folders\<close>

text \<open>
  Claim C6. \<open>fetchTasksRecursively\<close> is a total function: the traversal of a folder
  tree ends. On a tree as the claim has it, where every folder gives a list of tasks and
  a list of sub-folders (no call fails), it returns nil and appends to the
  accumulator the tasks of the folder itself, then those of its sub-folders depth first
  (\<open>leaf_tasks\<close>), which are the tasks of the tree, each as often as it occurs in it
  (\<open>tasks_in\<close>); and it calls \<^verbatim>\<open>GetTasks\<close> and then \<^verbatim>\<open>GetFolders\<close> once on every
  folder of the tree, a folder before the folders below it, and on nothing else.
\<close>

theorem fetchTasksRecursively_complete:
  assumes "all_calls_succeed folder"
  shows "fetchTasksRecursively folder w =
      (None, w\<lparr>scheduledTasks := scheduledTasks w @ leaf_tasks folder,
               calls := calls w @
                 concat (map (\<lambda>p. [(p, ''GetTasks''), (p, ''GetFolders'')])
                   (folder_paths folder))\<rparr>) \<and>
    mset (leaf_tasks folder) = tasks_in folder"
  using assms by (simp add: fetchTasksRecursively_ok tasks_in_leaf_tasks)

text \<open>
  The theorem of C6 at a tree with sibling folders at two depths: the root holds task a
  and the folders x (empty) and y; y holds task b and the folders z (task c) and v (empty).
\<close>

theorem fetchTasksRecursively_complete_witness:
  "all_calls_succeed
     (Folder ''/''
        (Inr [Inr \<lparr>Name = ''a'', Path = ''/a'', Enabled = True, State = 3,
                   MissedRunsCount = Finite False 0, LastTaskResult = 0\<rparr>])
        (Inr [Folder ''/x'' (Inr []) (Inr []),
              Folder ''/y''
                (Inr [Inr \<lparr>Name = ''b'', Path = ''/y/b'', Enabled = True, State = 4,
                           MissedRunsCount = Finite False 0, LastTaskResult = 0\<rparr>])
                (Inr [Folder ''/y/z''
                        (Inr [Inr \<lparr>Name = ''c'', Path = ''/y/z/c'', Enabled = False, State = 1,
                                   MissedRunsCount = Finite False 0, LastTaskResult = 0\<rparr>])
                        (Inr []),
                      Folder ''/y/v'' (Inr []) (Inr [])])])) \<and>
   fetchTasksRecursively
     (Folder ''/''
        (Inr [Inr \<lparr>Name = ''a'', Path = ''/a'', Enabled = True, State = 3,
                   MissedRunsCount = Finite False 0, LastTaskResult = 0\<rparr>])
        (Inr [Folder ''/x'' (Inr []) (Inr []),
              Folder ''/y''
                (Inr [Inr \<lparr>Name = ''b'', Path = ''/y/b'', Enabled = True, State = 4,
                           MissedRunsCount = Finite False 0, LastTaskResult = 0\<rparr>])
                (Inr [Folder ''/y/z''
                        (Inr [Inr \<lparr>Name = ''c'', Path = ''/y/z/c'', Enabled = False, State = 1,
                                   MissedRunsCount = Finite False 0, LastTaskResult = 0\<rparr>])
                        (Inr []),
                      Folder ''/y/v'' (Inr []) (Inr [])])]))
     \<lparr>scheduledTasks = [], calls = []\<rparr> =
     (None,
      \<lparr>scheduledTasks =
         [\<lparr>Name = ''a'', Path = ''/a'', Enabled = True, State = 3,
           MissedRunsCount = Finite False 0, LastTaskResult = 0\<rparr>,
          \<lparr>Name = ''b'', Path = ''/y/b'', Enabled = True, State = 4,
           MissedRunsCount = Finite False 0, LastTaskResult = 0\<rparr>,
          \<lparr>Name = ''c'', Path = ''/y/z/c'', Enabled = False, State = 1,
           MissedRunsCount = Finite False 0, LastTaskResult = 0\<rparr>],
       calls =
         [(''/'', ''GetTasks''), (''/'', ''GetFolders''),
          (''/x'', ''GetTasks''), (''/x'', ''GetFolders''),
          (''/y'', ''GetTasks''), (''/y'', ''GetFolders''),
          (''/y/z'', ''GetTasks''), (''/y/z'', ''GetFolders''),
          (''/y/v'', ''GetTasks''), (''/y/v'', ''GetFolders'')]\<rparr>)"
proof -
  let ?tree = "Folder ''/''
        (Inr [Inr \<lparr>Name = ''a'', Path = ''/a'', Enabled = True, State = 3,
                   MissedRunsCount = Finite False 0, LastTaskResult = 0\<rparr>])
        (Inr [Folder ''/x'' (Inr []) (Inr []),
              Folder ''/y''
                (Inr [Inr \<lparr>Name = ''b'', Path = ''/y/b'', Enabled = True, State = 4,
                           MissedRunsCount = Finite False 0, LastTaskResult = 0\<rparr>])
                (Inr [Folder ''/y/z''
                        (Inr [Inr \<lparr>Name = ''c'', Path = ''/y/z/c'', Enabled = False, State = 1,
                                   MissedRunsCount = Finite False 0, LastTaskResult = 0\<rparr>])
                        (Inr []),
                      Folder ''/y/v'' (Inr []) (Inr [])])])"
  have ok: "all_calls_succeed ?tree" by simp
  show ?thesis
    using ok fetchTasksRecursively_complete [OF ok, of "\<lparr>scheduledTasks = [], calls = []\<rparr>"]
    by simp
qed

subsection \<open>The time-in-JIT gauge\<close>

text \<open>
  Claim C7, as the code has it. The time-in-JIT gauges that \<^verbatim>\<open>collectClrJIT\<close> sends
  are, in the order of the rows, the float64 quotient of \<^verbatim>\<open>float64(PercentTimeinJit)\<close>
  and \<^verbatim>\<open>float64(Frequency_PerfTime)\<close> of every row that is not named \<^verbatim>\<open>_Global_\<close>,
  computed from the row of this call. For a divisor \<open>f\<close> that is not 0 the quotient is the
  exact quotient of the two counters rounded to float64; it is a value between 0 and 1
  when the numerator is at most the divisor. For 50 and 100 it is exactly 0.5.
\<close>

theorem time_in_jit_quotient:
  "map val (filter (\<lambda>m. desc m = c_timeInJit) (fst (collectClrJIT (Inr dst) []))) =
     map (\<lambda>process. float64_div (float64_of_uint32 (PercentTimeinJit process))
                        (float64_of_uint32 (Frequency_PerfTime process)))
       (filter (\<lambda>process. Name process \<noteq> ''_Global_'') dst) \<and>
   (f \<noteq> 0 \<longrightarrow>
      float64_div (float64_of_uint32 p) (float64_of_uint32 f) =
        round_float64 False (of_int (uint p) / of_int (uint f))) \<and>
   (f \<noteq> 0 \<and> p \<le> f \<longrightarrow>
      is_fraction (float64_div (float64_of_uint32 p) (float64_of_uint32 f))) \<and>
   float64_div (float64_of_uint32 50) (float64_of_uint32 100) = Finite False (1 / 2)"
proof -
  have half: "float64_div (float64_of_uint32 50) (float64_of_uint32 100) = Finite False (1 / 2)"
    by (simp add: float64_of_uint32_exact round_float64_half)
  show ?thesis
    using timeInJit_samples [of dst] jit_quotient_nonzero [of f p] half by blast
qed

text \<open>
  The theorem of C7 at the row of the specification: 50 over 100, which is 0.5.
\<close>

theorem time_in_jit_quotient_witness:
  "(100 :: 32 word) \<noteq> 0 \<and> (50 :: 32 word) \<le> 100 \<and>
   is_fraction (float64_div (float64_of_uint32 50) (float64_of_uint32 100)) \<and>
   float64_div (float64_of_uint32 50) (float64_of_uint32 100) = Finite False (1 / 2) \<and>
   map val (filter (\<lambda>m. desc m = c_timeInJit)
     (fst (collectClrJIT
        (Inr [\<lparr>Name = ''w3wp'', Frequency_PerfTime = 100, ILBytesJittedPersec = 0,
               NumberofILBytesJitted = 0, NumberofMethodsJitted = 1, PercentTimeinJit = 50,
               StandardJitFailures = 0, TotalNumberofILBytesJitted = 0\<rparr>]) []))) =
     [Finite False (1 / 2)]"
proof -
  let ?row = "\<lparr>Name = ''w3wp'', Frequency_PerfTime = 100, ILBytesJittedPersec = 0,
               NumberofILBytesJitted = 0, NumberofMethodsJitted = 1, PercentTimeinJit = 50,
               StandardJitFailures = 0, TotalNumberofILBytesJitted = 0\<rparr>"
  note at_row = time_in_jit_quotient [of "[?row]" 100 50]
  have nz: "(100 :: 32 word) \<noteq> 0" by simp
  have le: "(50 :: 32 word) \<le> 100" by simp
  have frac: "is_fraction (float64_div (float64_of_uint32 50) (float64_of_uint32 100))"
    using at_row nz le by blast
  have half: "float64_div (float64_of_uint32 50) (float64_of_uint32 100) = Finite False (1 / 2)"
    using at_row by blast
  have "map val (filter (\<lambda>m. desc m = c_timeInJit) (fst (collectClrJIT (Inr [?row]) []))) =
     map (\<lambda>process. float64_div (float64_of_uint32 (PercentTimeinJit process))
                        (float64_of_uint32 (Frequency_PerfTime process)))
       (filter (\<lambda>process. Name process \<noteq> ''_Global_'') [?row])"
    using at_row by blast
  also have "\<dots> = [float64_div (float64_of_uint32 50) (float64_of_uint32 100)]"
    by simp
  also have "\<dots> = [Finite False (1 / 2)]"
    by (simp only: half)
  finally have sent: "map val (filter (\<lambda>m. desc m = c_timeInJit)
      (fst (collectClrJIT (Inr [?row]) []))) = [Finite False (1 / 2)]" .
  from nz le frac half sent show ?thesis by (intro conjI)
qed

text \<open>
  Claim C7 as stated fails where it says that the gauge is a value between 0 and 1: the
  quotient is not clamped. A row with \<^verbatim>\<open>PercentTimeinJit = 200\<close> and
  \<^verbatim>\<open>Frequency_PerfTime = 100\<close> gives the gauge 2, and a row with
  \<^verbatim>\<open>Frequency_PerfTime = 0\<close> gives an infinity.
\<close>

theorem time_in_jit_above_one_counterexample:
  "val (fst (collectClrJIT
        (Inr [\<lparr>Name = ''w3wp'', Frequency_PerfTime = 100, ILBytesJittedPersec = 0,
               NumberofILBytesJitted = 0, NumberofMethodsJitted = 1, PercentTimeinJit = 200,
               StandardJitFailures = 0, TotalNumberofILBytesJitted = 0\<rparr>]) []) ! 1) =
     Finite False 2 \<and>
   desc (fst (collectClrJIT
        (Inr [\<lparr>Name = ''w3wp'', Frequency_PerfTime = 100, ILBytesJittedPersec = 0,
               NumberofILBytesJitted = 0, NumberofMethodsJitted = 1, PercentTimeinJit = 200,
               StandardJitFailures = 0, TotalNumberofILBytesJitted = 0\<rparr>]) []) ! 1) =
     c_timeInJit \<and>
   \<not> is_fraction (Finite False 2) \<and>
   \<not> is_fraction (val (fst (collectClrJIT
        (Inr [\<lparr>Name = ''w3wp'', Frequency_PerfTime = 0, ILBytesJittedPersec = 0,
               NumberofILBytesJitted = 0, NumberofMethodsJitted = 1, PercentTimeinJit = 200,
               StandardJitFailures = 0, TotalNumberofILBytesJitted = 0\<rparr>]) []) ! 1))"
  by (simp add: collectClrJIT_def MustNewConstMetric_def float64_of_uint32_exact
      round_float64_two is_fraction_def)

subsection \<open>The widening of the 32-bit counters\<close>

text \<open>
  Claim C8. The conversion of a 32-bit counter \<open>v\<close> to float64 gives the finite value
  that stands for exactly \<open>v\<close>: nothing is rounded, wrapped or negative, and 4294967295
  gives 4294967295. So the samples of the CLR exceptions collector, and those of the CLR
  JIT collector other than the time-in-JIT gauge, stand for exactly the counters of their
  rows.
\<close>

theorem uint32_widening_lossless:
  "valof (float64_of_uint32 v) = Some (of_nat (unat v)) \<and>
   float64_of_uint32 4294967295 = Finite False 4294967295 \<and>
   map (\<lambda>m. valof (val m)) (fst (collectClrExceptions (Inr dst) [])) =
     concat (map (\<lambda>process.
       if Name process = ''_Global_'' then []
       else [Some (of_nat (unat (NumberofExcepsThrown process))),
             Some (of_nat (unat (NumberofFiltersPersec process))),
             Some (of_nat (unat (NumberofFinallysPersec process))),
             Some (of_nat (unat (ThrowToCatchDepthPersec process)))]) dst) \<and>
   map (\<lambda>m. valof (val m))
     (filter (\<lambda>m. desc m \<noteq> c_timeInJit) (fst (collectClrJIT (Inr jit) []))) =
     concat (map (\<lambda>process.
       if Name process = ''_Global_'' then []
       else [Some (of_nat (unat (NumberofMethodsJitted process))),
             Some (of_nat (unat (StandardJitFailures process))),
             Some (of_nat (unat (TotalNumberofILBytesJitted process)))]) jit)"
proof -
  have exact: "valof (float64_of_uint32 w) = Some (of_nat (unat w))" for w
    by (simp add: float64_of_uint32_exact)
  have max32: "float64_of_uint32 4294967295 = Finite False 4294967295"
    by (simp add: float64_of_uint32_exact)
  have exc: "map (\<lambda>m. valof (val m)) (fst (collectClrExceptions (Inr dst) [])) =
     concat (map (\<lambda>process.
       if Name process = ''_Global_'' then []
       else [Some (of_nat (unat (NumberofExcepsThrown process))),
             Some (of_nat (unat (NumberofFiltersPersec process))),
             Some (of_nat (unat (NumberofFinallysPersec process))),
             Some (of_nat (unat (ThrowToCatchDepthPersec process)))]) dst)"
    unfolding collectClrExceptions_def
    by (induction dst)
      (simp_all add: collectClrExceptions_rows_eq MustNewConstMetric_def exact)
  have jit: "map (\<lambda>m. valof (val m))
     (filter (\<lambda>m. desc m \<noteq> c_timeInJit) (fst (collectClrJIT (Inr jit) []))) =
     concat (map (\<lambda>process.
       if Name process = ''_Global_'' then []
       else [Some (of_nat (unat (NumberofMethodsJitted process))),
             Some (of_nat (unat (StandardJitFailures process))),
             Some (of_nat (unat (TotalNumberofILBytesJitted process)))]) jit)"
    unfolding collectClrJIT_def
    by (induction jit)
      (simp_all add: collectClrJIT_rows_eq MustNewConstMetric_def exact)
  from exact max32 exc jit show ?thesis by blast
qed

subsection \<open>The divisor of the time-in-JIT gauge\<close>

text \<open>
  Claim C9. \<^verbatim>\<open>collectClrJIT\<close> returns nil whatever the rows are, and for every row
  that is not named \<^verbatim>\<open>_Global_\<close> it sends the time-in-JIT gauge, also when
  \<^verbatim>\<open>Frequency_PerfTime\<close> is 0. The gauge is a finite number exactly when
  \<^verbatim>\<open>Frequency_PerfTime\<close> is not 0: with the divisor 0 it is NaN for the numerator 0,
  and an infinity otherwise.
\<close>

theorem time_in_jit_zero_frequency:
  assumes "process \<in> set dst" and "Name process \<noteq> ''_Global_''"
  shows "snd (collectClrJIT (Inr dst) ch) = None \<and>
    MustNewConstMetric c_timeInJit GaugeValue
      (float64_div (float64_of_uint32 (PercentTimeinJit process))
         (float64_of_uint32 (Frequency_PerfTime process)))
      [Name process] \<in> set (fst (collectClrJIT (Inr dst) ch)) \<and>
    (is_finite (float64_div (float64_of_uint32 (PercentTimeinJit process))
                  (float64_of_uint32 (Frequency_PerfTime process))) \<longleftrightarrow>
       Frequency_PerfTime process \<noteq> 0) \<and>
    (Frequency_PerfTime process = 0 \<longrightarrow>
       float64_div (float64_of_uint32 (PercentTimeinJit process))
         (float64_of_uint32 (Frequency_PerfTime process)) =
       (if PercentTimeinJit process = 0 then NaN else Infinity False))"
proof -
  have ret: "snd (collectClrJIT (Inr dst) ch) = None"
    by (simp add: collectClrJIT_def)
  have sent: "MustNewConstMetric c_timeInJit GaugeValue
      (float64_div (float64_of_uint32 (PercentTimeinJit process))
         (float64_of_uint32 (Frequency_PerfTime process)))
      [Name process] \<in> set (fst (collectClrJIT (Inr dst) ch))"
    using assms by (force simp: collectClrJIT_def collectClrJIT_rows_eq)
  have zero: "float64_div (float64_of_uint32 (PercentTimeinJit process))
         (float64_of_uint32 (Frequency_PerfTime process)) =
       (if PercentTimeinJit process = 0 then NaN else Infinity False)"
    if "Frequency_PerfTime process = 0"
    using jit_quotient_zero [of "PercentTimeinJit process"] that by simp
  have fin: "is_finite (float64_div (float64_of_uint32 (PercentTimeinJit process))
                  (float64_of_uint32 (Frequency_PerfTime process))) \<longleftrightarrow>
       Frequency_PerfTime process \<noteq> 0"
  proof (cases "Frequency_PerfTime process = 0")
    case True
    then show ?thesis using zero by simp
  next
    case False
    then show ?thesis using jit_quotient_nonzero(2) [of "Frequency_PerfTime process"] by simp
  qed
  from ret sent fin zero show ?thesis by blast
qed

text \<open>
  The theorem of C9 at a row with \<^verbatim>\<open>Frequency_PerfTime = 0\<close> and
  \<^verbatim>\<open>PercentTimeinJit = 50\<close>, after the aggregate row: the gauge is sent, with an
  infinity as its value.
\<close>

theorem time_in_jit_zero_frequency_witness:
  "''w3wp'' \<noteq> ''_Global_'' \<and>
   snd (collectClrJIT
     (Inr [\<lparr>Name = ''_Global_'', Frequency_PerfTime = 0, ILBytesJittedPersec = 0,
            NumberofILBytesJitted = 0, NumberofMethodsJitted = 0, PercentTimeinJit = 0,
            StandardJitFailures = 0, TotalNumberofILBytesJitted = 0\<rparr>,
           \<lparr>Name = ''w3wp'', Frequency_PerfTime = 0, ILBytesJittedPersec = 0,
            NumberofILBytesJitted = 0, NumberofMethodsJitted = 1, PercentTimeinJit = 50,
            StandardJitFailures = 0, TotalNumberofILBytesJitted = 0\<rparr>]) []) = None \<and>
   MustNewConstMetric c_timeInJit GaugeValue (Infinity False) [''w3wp''] \<in>
     set (fst (collectClrJIT
       (Inr [\<lparr>Name = ''_Global_'', Frequency_PerfTime = 0, ILBytesJittedPersec = 0,
              NumberofILBytesJitted = 0, NumberofMethodsJitted = 0, PercentTimeinJit = 0,
              StandardJitFailures = 0, TotalNumberofILBytesJitted = 0\<rparr>,
             \<lparr>Name = ''w3wp'', Frequency_PerfTime = 0, ILBytesJittedPersec = 0,
              NumberofILBytesJitted = 0, NumberofMethodsJitted = 1, PercentTimeinJit = 50,
              StandardJitFailures = 0, TotalNumberofILBytesJitted = 0\<rparr>]) [])) \<and>
   \<not> is_finite (Infinity False)"
proof -
  let ?g = "\<lparr>Name = ''_Global_'', Frequency_PerfTime = 0, ILBytesJittedPersec = 0,
            NumberofILBytesJitted = 0, NumberofMethodsJitted = 0, PercentTimeinJit = 0,
            StandardJitFailures = 0, TotalNumberofILBytesJitted = 0\<rparr>"
  let ?w = "\<lparr>Name = ''w3wp'', Frequency_PerfTime = 0, ILBytesJittedPersec = 0,
            NumberofILBytesJitted = 0, NumberofMethodsJitted = 1, PercentTimeinJit = 50,
            StandardJitFailures = 0, TotalNumberofILBytesJitted = 0\<rparr>"
  have mem: "?w \<in> set [?g, ?w]" by simp
  have name: "Name ?w \<noteq> ''_Global_''" by simp
  note at_row = time_in_jit_zero_frequency [OF mem name, of "[]"]
  have name': "''w3wp'' \<noteq> ''_Global_''" by simp
  have ret: "snd (collectClrJIT (Inr [?g, ?w]) []) = None"
    using at_row by blast
  have "Frequency_PerfTime ?w = 0" by simp
  then have "float64_div (float64_of_uint32 (PercentTimeinJit ?w))
      (float64_of_uint32 (Frequency_PerfTime ?w)) =
      (if PercentTimeinJit ?w = 0 then NaN else Infinity False)"
    using at_row by blast
  also have "\<dots> = Infinity False" by simp
  finally have inf: "float64_div (float64_of_uint32 (PercentTimeinJit ?w))
      (float64_of_uint32 (Frequency_PerfTime ?w)) = Infinity False" .
  have "MustNewConstMetric c_timeInJit GaugeValue
      (float64_div (float64_of_uint32 (PercentTimeinJit ?w))
         (float64_of_uint32 (Frequency_PerfTime ?w)))
      [Name ?w] \<in> set (fst (collectClrJIT (Inr [?g, ?w]) []))"
    using at_row by blast
  then have sent: "MustNewConstMetric c_timeInJit GaugeValue (Infinity False) [''w3wp''] \<in>
      set (fst (collectClrJIT (Inr [?g, ?w]) []))"
    unfolding inf by simp
  have nonfin: "\<not> is_finite (Infinity False)" by simp
  from name' ret sent nonfin show ?thesis by (intro conjI)
qed

subsection \<open>VMware: element 0 of the rows\<close>

text \<open>
  Claim C10. \<^verbatim>\<open>collectMem\<close> and \<^verbatim>\<open>collectCpu\<close> read element 0 of the rows of a
  successful query without a check: on rows that are empty they panic, with nothing sent
  and no error returned; they return nil exactly when the rows are not empty, and then
  they send twelve and seven samples.
\<close>

theorem index_zero_unguarded:
  "collectMem u (Inr []) ch = (ch, Panicked) \<and>
   collectCpu u (Inr []) ch = (ch, Panicked) \<and>
   (snd (collectMem u (Inr mem) ch) = Returned None \<longleftrightarrow> mem \<noteq> []) \<and>
   (snd (collectCpu u (Inr cpu) ch) = Returned None \<longleftrightarrow> cpu \<noteq> []) \<and>
   (snd (collectMem u (Inr mem) ch) = Panicked \<longleftrightarrow> mem = []) \<and>
   (snd (collectCpu u (Inr cpu) ch) = Panicked \<longleftrightarrow> cpu = []) \<and>
   length (fst (collectMem u (Inr (m0 # ms)) ch)) = length ch + 12 \<and>
   length (fst (collectCpu u (Inr (c0 # cs)) ch)) = length ch + 7"
  by (simp add: collectMem_def collectCpu_def split: list.splits)

end
